theory Spec2Isabelle
  imports Main "HOL-Library.Word" "HOL-Library.Sublist"
begin

section \<open>Data of main.go\<close>

text \<open>
  An instant is a number of nanoseconds since the Unix epoch; a \<open>time.Time\<close> is an instant
  presented in a location. A \<open>time.Duration\<close> is a signed 64-bit count of nanoseconds.
\<close>

type_synonym instant = int
type_synonym duration = "64 word"

datatype location = UTC | Zone string

record time =
  inst :: instant
  zone :: location

text \<open>The structs \<open>booking\<close> and \<open>bookingContainer\<close>; \<open>BookingTime\<close> is a pointer, nil in
  the empty booking.\<close>

record booking =
  Name :: string
  Treatment :: string
  Phone :: string
  BookingTime :: "time option"
  MinDate :: string

record bookingContainer =
  Booking :: booking
  Message :: string

text \<open>The arguments of one call of \<open>sms.Create\<close>.\<close>

record sms_request =
  originator :: string
  recipients :: "string list"
  body :: string
  ScheduledDatetime :: time

text \<open>The request, as far as the handler reads it: the method and the submitted form
  fields in the order received.\<close>

record request =
  Method :: string
  Form :: "(string \<times> string) list"

definition FormValue :: "request \<Rightarrow> string \<Rightarrow> string" where
  "FormValue r k = (case map_of (Form r) k of None \<Rightarrow> [] | Some v \<Rightarrow> v)"

section \<open>Effects\<close>

text \<open>
  What a call can leave behind: the number of readings taken from the system clock, what
  has been written to the \<open>http.ResponseWriter\<close>, the calls made to the lookup and the SMS
  services, and the log. A template that fails while executing may have written part of
  the page.
\<close>

datatype written = Page string bookingContainer | Partial string bookingContainer

record world =
  ticks :: nat
  response :: "written list"
  lookups :: "(string \<times> string) list"
  sent :: "sms_request list"
  logged :: "string list"

text \<open>A call ends by returning, by a panic, or by \<open>log.Fatal\<close> ending the process.\<close>

datatype failure = Panic string | Exit

text \<open>
  Everything the program gets from outside: the readings of the system clock (the n-th
  call of \<open>time.Now\<close> returns \<open>clock e n\<close>), the zone database and the calendar of package
  \<open>time\<close>, the two MessageBird services and the template engine. Errors are carried as
  their text. \<open>Date e y m d h loc\<close> is \<open>time.Date(y, m, d, h, 0, 0, 0, loc)\<close>.
\<close>

record env =
  clock :: "nat \<Rightarrow> instant"
  LoadLocation :: "string \<Rightarrow> string + location"
  ParseInLocation :: "string \<Rightarrow> string \<Rightarrow> location \<Rightarrow> string + instant"
  Year :: "time \<Rightarrow> int"
  Month :: "time \<Rightarrow> int"
  Day :: "time \<Rightarrow> int"
  Date :: "int \<Rightarrow> int \<Rightarrow> int \<Rightarrow> int \<Rightarrow> location \<Rightarrow> instant"
  Format :: "time \<Rightarrow> string \<Rightarrow> string"
  Duration_String :: "duration \<Rightarrow> string"
  lookup_Read :: "string \<Rightarrow> string \<Rightarrow> string option"
  sms_Create :: "sms_request \<Rightarrow> string + string"
  ParseFiles :: "string list \<Rightarrow> string option"
  ExecuteTemplate :: "string list \<Rightarrow> string \<Rightarrow> bookingContainer \<Rightarrow> string option"

section \<open>Operations of package time on instants\<close>

definition Before :: "time \<Rightarrow> time \<Rightarrow> bool" where
  "Before t u = (inst t < inst u)"

definition After :: "time \<Rightarrow> time \<Rightarrow> bool" where
  "After t u = (inst t > inst u)"

definition minDuration :: int where
  "minDuration = - (2 ^ 63)"

definition maxDuration :: int where
  "maxDuration = 2 ^ 63 - 1"

text \<open>\<open>t.Sub(u)\<close> is the difference, or the largest or smallest duration when the
  difference does not fit into 64 bits.\<close>

definition Sub :: "time \<Rightarrow> time \<Rightarrow> duration" where
  "Sub t u =
     (let d = inst t - inst u
      in if maxDuration < d then word_of_int maxDuration
         else if d < minDuration then word_of_int minDuration
         else word_of_int d)"

definition Add :: "time \<Rightarrow> duration \<Rightarrow> time" where
  "Add t d = t\<lparr>inst := inst t + sint d\<rparr>"

text \<open>The zero \<open>time.Time\<close>: January 1 of year 1, 00:00:00 UTC.\<close>

definition zero_time :: time where
  "zero_time = \<lparr>inst = - 62135596800000000000, zone = UTC\<rparr>"

text \<open>\<open>time.Now().In(loc)\<close> for a loaded location: one reading of the clock.\<close>

definition Now_In :: "env \<Rightarrow> location \<Rightarrow> world \<Rightarrow> time \<times> world" where
  "Now_In e loc s = (\<lparr>inst = clock e (ticks s), zone = loc\<rparr>, s\<lparr>ticks := Suc (ticks s)\<rparr>)"

text \<open>\<open>strings.Split(s, sep)\<close> for a separator of one character.\<close>

fun Split :: "string \<Rightarrow> char \<Rightarrow> string list" where
  "Split [] c = [[]]"
| "Split (x # xs) c =
     (if x = c then [] # Split xs c
      else (case Split xs c of [] \<Rightarrow> [[x]] | y # ys \<Rightarrow> (x # y) # ys))"

section \<open>checkTime\<close>

text \<open>
  The response writer \<open>w\<close> that \<open>checkTime\<close> receives is the \<open>response\<close> of the world it
  is run in. Its location is one that has been loaded: the handler has used it in
  \<open>Time.In\<close> before the call. Indexing the result of \<open>strings.Split\<close> with 0 panics on an
  empty slice.
\<close>

definition checkTime ::
  "env \<Rightarrow> world \<Rightarrow> time \<Rightarrow> duration \<Rightarrow> location \<Rightarrow> (failure + string) \<times> world" where
  "checkTime e s bookingTime reminderDiff loc =
     (let bookingYear = Year e bookingTime;
          bookingMonth = Month e bookingTime;
          bookingDay = Day e bookingTime;
          openingTime = \<lparr>inst = Date e bookingYear bookingMonth bookingDay 9 loc, zone = loc\<rparr>;
          closingTime = \<lparr>inst = Date e bookingYear bookingMonth bookingDay 18 loc, zone = loc\<rparr>;
          (now, s') = Now_In e loc s;
          timeBeforeBooking = Sub bookingTime now
      in if Before bookingTime now then
           (Inr ''Cannot make a booking before now. Please try again!'', s')
         else if Before bookingTime openingTime then
           (Inr (''We're not open yet! Please book your appointment between ''
                 @ Format e openingTime ''03:04 PM'' @ '' and ''
                 @ Format e closingTime ''03:04 PM'' @ ''.''), s')
         else if After bookingTime closingTime then
           (Inr (''We're closed! Please book your appointment between ''
                 @ Format e openingTime ''03:04 PM'' @ '' and ''
                 @ Format e closingTime ''03:04 PM'' @ ''.''), s')
         else if sint timeBeforeBooking < sint reminderDiff then
           (case Split (Duration_String e reminderDiff) (CHR ''h'') of
              [] \<Rightarrow> (Inl (Panic ''index out of range''), s')
            | x # _ \<Rightarrow> (Inr (''Please book an appointment '' @ x @ '' hours in advance.''), s'))
         else (Inr ''Success!'', s'))"

section \<open>The handler\<close>

definition log_Println :: "string \<Rightarrow> world \<Rightarrow> world" where
  "log_Println m s = s\<lparr>logged := logged s @ [m]\<rparr>"

text \<open>\<open>log.Fatal\<close> prints and ends the process.\<close>

definition RenderDefaultTemplate ::
  "env \<Rightarrow> world \<Rightarrow> string \<Rightarrow> bookingContainer \<Rightarrow> failure option \<times> world" where
  "RenderDefaultTemplate e s thisView data =
     (let renderthis = [thisView, ''views/layouts/default.gohtml'']
      in case ParseFiles e renderthis of
           Some err \<Rightarrow> (Some Exit, log_Println err s)
         | None \<Rightarrow>
            (case ExecuteTemplate e renderthis ''default'' data of
               Some err \<Rightarrow>
                 (Some Exit, log_Println err (s\<lparr>response := response s @ [Partial thisView data]\<rparr>))
             | None \<Rightarrow> (None, s\<lparr>response := response s @ [Page thisView data]\<rparr>)))"

definition Hour :: duration where
  "Hour = 3600000000000"

text \<open>
  \<open>time.ParseDuration("3h")\<close> is \<open>3 * Hour\<close> with a nil error. When the zone cannot be
  loaded, \<open>loc\<close> stays nil and \<open>time.Now().In(loc)\<close> panics after reading the clock. When
  the date and time do not parse, \<open>time.ParseInLocation\<close> returns the zero \<open>time.Time\<close>
  with its error, which is logged.
\<close>

definition bbScheduler :: "env \<Rightarrow> world \<Rightarrow> request \<Rightarrow> failure option \<times> world" where
  "bbScheduler e s r =
     (let reminderDiff = 3 * Hour
      in case LoadLocation e ''Europe/Amsterdam'' of
           Inl err \<Rightarrow>
             (Some (Panic ''time: missing Location in call to Time.In''),
              (log_Println err s)\<lparr>ticks := Suc (ticks s)\<rparr>)
         | Inr loc \<Rightarrow>
            (let (t0, s0) = Now_In e loc s;
                 BookingEmpty = \<lparr>Name = [], Treatment = [], Phone = [], BookingTime = None,
                                 MinDate = Format e t0 ''2006-01-02''\<rparr>
             in if Method r = ''POST'' then
                  (let (bookingTime, s1) =
                         (case ParseInLocation e ''2006-01-02 15:04''
                                 (FormValue r ''date'' @ '' '' @ FormValue r ''time'') loc of
                            Inl err \<Rightarrow> (zero_time, log_Println err s0)
                          | Inr i \<Rightarrow> (\<lparr>inst = i, zone = loc\<rparr>, s0));
                       reminderTime = Add bookingTime (- reminderDiff);
                       (t1, s2) = Now_In e loc s1;
                       ThisBooking = \<lparr>Name = FormValue r ''name'',
                                      Treatment = FormValue r ''treatment'',
                                      Phone = FormValue r ''phone'',
                                      BookingTime = Some bookingTime,
                                      MinDate = Format e t1 ''2006-01-02''\<rparr>;
                       s3 = s2\<lparr>lookups := lookups s2 @ [(FormValue r ''phone'', ''NL'')]\<rparr>
                   in case lookup_Read e (FormValue r ''phone'') ''NL'' of
                        Some err \<Rightarrow>
                          RenderDefaultTemplate e s3 ''views/booking.gohtml''
                            \<lparr>Booking = ThisBooking, Message = ''Please enter a valid phone number.''\<rparr>
                      | None \<Rightarrow>
                         (case checkTime e s3 bookingTime reminderDiff loc of
                            (Inl f, s4) \<Rightarrow> (Some f, s4)
                          | (Inr status, s4) \<Rightarrow>
                              if status = ''Success!'' then
                                (let successStatus =
                                       ''Done! We've set up an appointment for you at ''
                                       @ Format e bookingTime ''Mon, 02 Jan 2006 3:04 PM''
                                       @ '' for '' @ FormValue r ''treatment''
                                       @ ''. We'll send a reminder to '' @ FormValue r ''phone''
                                       @ '' at '' @ Format e reminderTime ''Mon, 02 Jan 2006 3:04 PM''
                                       @ ''. Thanks for using BeautyBird!'';
                                     reminderMessage =
                                       ''Gentle reminder: you've got an appointment with BeautyBird at ''
                                       @ Format e bookingTime ''Mon, 02 Jan 2006 3:04 PM''
                                       @ ''. See you then!'';
                                     msg = \<lparr>originator = ''BeautyBird'',
                                            recipients = [FormValue r ''phone''],
                                            body = reminderMessage,
                                            ScheduledDatetime = reminderTime\<rparr>;
                                     s5 = s4\<lparr>sent := sent s4 @ [msg]\<rparr>
                                 in case sms_Create e msg of
                                      Inl err \<Rightarrow>
                                        RenderDefaultTemplate e (log_Println err s5)
                                          ''views/booking.gohtml''
                                          \<lparr>Booking = ThisBooking,
                                           Message = err @ [CHR 0x0A]
                                             @ ''. Please check your details and try again!''\<rparr>
                                    | Inr m \<Rightarrow>
                                        RenderDefaultTemplate e (log_Println m s5)
                                          ''views/booking.gohtml''
                                          \<lparr>Booking = ThisBooking, Message = successStatus\<rparr>)
                              else if status \<noteq> [] then
                                RenderDefaultTemplate e s4 ''views/booking.gohtml''
                                  \<lparr>Booking = ThisBooking, Message = status\<rparr>
                              else
                                RenderDefaultTemplate e s4 ''views/booking.gohtml''
                                  \<lparr>Booking = BookingEmpty, Message = []\<rparr>))
                else
                  RenderDefaultTemplate e s0 ''views/booking.gohtml''
                    \<lparr>Booking = BookingEmpty, Message = []\<rparr>))"

section \<open>The vocabulary of the specification\<close>

text \<open>
  The specification names the five results of the validator; the program returns
  sentences. \<open>outcome\<close> reads a returned sentence as the variant it stands for, and a
  failure as no variant at all.
\<close>

datatype ValidationOutcome = Valid | BeforeNow | BeforeOpening | AfterClosing | TooSoon

definition outcome_of_status :: "string \<Rightarrow> ValidationOutcome option" where
  "outcome_of_status st =
     (if st = ''Success!'' then Some Valid
      else if st = ''Cannot make a booking before now. Please try again!'' then Some BeforeNow
      else if prefix ''We're not open yet! '' st then Some BeforeOpening
      else if prefix ''We're closed! '' st then Some AfterClosing
      else if prefix ''Please book an appointment '' st then Some TooSoon
      else None)"

definition outcome :: "failure + string \<Rightarrow> ValidationOutcome option" where
  "outcome res = (case res of Inl f \<Rightarrow> None | Inr st \<Rightarrow> outcome_of_status st)"

text \<open>The opening and the closing instant of the calendar date of a booking, as
  \<open>checkTime\<close> derives them: 09:00 and 18:00 of that date in the location.\<close>

definition openingInstant :: "env \<Rightarrow> time \<Rightarrow> location \<Rightarrow> instant" where
  "openingInstant e t loc = Date e (Year e t) (Month e t) (Day e t) 9 loc"

definition closingInstant :: "env \<Rightarrow> time \<Rightarrow> location \<Rightarrow> instant" where
  "closingInstant e t loc = Date e (Year e t) (Month e t) (Day e t) 18 loc"

text \<open>The booking time the handler works with (lines 82 to 85 of main.go).\<close>

definition submitted_time :: "env \<Rightarrow> request \<Rightarrow> location \<Rightarrow> time" where
  "submitted_time e r loc =
     (case ParseInLocation e ''2006-01-02 15:04''
             (FormValue r ''date'' @ '' '' @ FormValue r ''time'') loc of
        Inl err \<Rightarrow> zero_time
      | Inr i \<Rightarrow> \<lparr>inst = i, zone = loc\<rparr>)"

text \<open>The booking record the handler fills from a submission (lines 91 to 97); the
  second reading of the clock gives its \<open>MinDate\<close>.\<close>

definition submitted_booking :: "env \<Rightarrow> world \<Rightarrow> request \<Rightarrow> location \<Rightarrow> booking" where
  "submitted_booking e s r loc =
     \<lparr>Name = FormValue r ''name'',
      Treatment = FormValue r ''treatment'',
      Phone = FormValue r ''phone'',
      BookingTime = Some (submitted_time e r loc),
      MinDate = Format e \<lparr>inst = clock e (Suc (ticks s)), zone = loc\<rparr> ''2006-01-02''\<rparr>"

text \<open>The world in which the handler calls \<open>checkTime\<close>: two readings of the clock
  taken, the lookup made, the parse error logged if there was one.\<close>

definition world_at_check :: "env \<Rightarrow> world \<Rightarrow> request \<Rightarrow> location \<Rightarrow> world" where
  "world_at_check e s r loc =
     (case ParseInLocation e ''2006-01-02 15:04''
             (FormValue r ''date'' @ '' '' @ FormValue r ''time'') loc of
        Inl err \<Rightarrow> log_Println err s
      | Inr i \<Rightarrow> s)
     \<lparr>ticks := Suc (Suc (ticks s)),
      lookups := lookups s @ [(FormValue r ''phone'', ''NL'')]\<rparr>"

text \<open>The template engine works: both templates parse and execute.\<close>

definition templates_ok :: "env \<Rightarrow> bool" where
  "templates_ok e =
     ((\<forall>fs. ParseFiles e fs = None) \<and> (\<forall>fs n d. ExecuteTemplate e fs n d = None))"

text \<open>
  The pieces of the POST branch after the phone check, named so that the paths of the
  handler can be stated: the SMS request and the confirmation it builds (lines 111 to
  125), the empty booking (line 73), and what it does with the result of \<open>checkTime\<close>
  (lines 108 to 141).
\<close>

definition reminder_request :: "env \<Rightarrow> request \<Rightarrow> location \<Rightarrow> sms_request" where
  "reminder_request e r loc =
     \<lparr>originator = ''BeautyBird'',
      recipients = [FormValue r ''phone''],
      body = ''Gentle reminder: you've got an appointment with BeautyBird at ''
             @ Format e (submitted_time e r loc) ''Mon, 02 Jan 2006 3:04 PM''
             @ ''. See you then!'',
      ScheduledDatetime = Add (submitted_time e r loc) (- (3 * Hour))\<rparr>"

definition success_status :: "env \<Rightarrow> request \<Rightarrow> location \<Rightarrow> string" where
  "success_status e r loc =
     ''Done! We've set up an appointment for you at ''
     @ Format e (submitted_time e r loc) ''Mon, 02 Jan 2006 3:04 PM''
     @ '' for '' @ FormValue r ''treatment''
     @ ''. We'll send a reminder to '' @ FormValue r ''phone''
     @ '' at '' @ Format e (Add (submitted_time e r loc) (- (3 * Hour))) ''Mon, 02 Jan 2006 3:04 PM''
     @ ''. Thanks for using BeautyBird!''"

definition empty_booking :: "env \<Rightarrow> world \<Rightarrow> location \<Rightarrow> booking" where
  "empty_booking e s loc =
     \<lparr>Name = [], Treatment = [], Phone = [], BookingTime = None,
      MinDate = Format e \<lparr>inst = clock e (ticks s), zone = loc\<rparr> ''2006-01-02''\<rparr>"

definition after_check ::
  "env \<Rightarrow> world \<Rightarrow> request \<Rightarrow> location \<Rightarrow> (failure + string) \<times> world \<Rightarrow> failure option \<times> world" where
  "after_check e s r loc res =
     (case res of
        (Inl f, s4) \<Rightarrow> (Some f, s4)
      | (Inr status, s4) \<Rightarrow>
          if status = ''Success!'' then
            (case sms_Create e (reminder_request e r loc) of
               Inl err \<Rightarrow>
                 RenderDefaultTemplate e
                   (log_Println err (s4\<lparr>sent := sent s4 @ [reminder_request e r loc]\<rparr>))
                   ''views/booking.gohtml''
                   \<lparr>Booking = submitted_booking e s r loc,
                    Message = err @ [CHR 0x0A] @ ''. Please check your details and try again!''\<rparr>
             | Inr m \<Rightarrow>
                 RenderDefaultTemplate e
                   (log_Println m (s4\<lparr>sent := sent s4 @ [reminder_request e r loc]\<rparr>))
                   ''views/booking.gohtml''
                   \<lparr>Booking = submitted_booking e s r loc, Message = success_status e r loc\<rparr>)
          else if status \<noteq> [] then
            RenderDefaultTemplate e s4 ''views/booking.gohtml''
              \<lparr>Booking = submitted_booking e s r loc, Message = status\<rparr>
          else
            RenderDefaultTemplate e s4 ''views/booking.gohtml''
              \<lparr>Booking = empty_booking e s loc, Message = []\<rparr>)"

section \<open>A concrete environment\<close>

text \<open>
  A calendar with fixed offsets for running the program on concrete submissions: UTC, and
  one hour east of it for every named zone, which is the offset of Europe/Amsterdam on
  the dates used below. Days are counted from 1970-01-01 in the proleptic Gregorian
  calendar. The parser reads exactly the form yyyy-mm-dd hh:mm and checks the ranges of
  its fields; the formatter knows the three layouts the program uses. The clock starts at
  2024-03-01 10:00 local time and advances one millisecond per reading. The lookup
  accepts one phone number, and the SMS service and the templates always succeed.
\<close>

definition days_of_parts :: "int \<Rightarrow> int \<Rightarrow> int \<Rightarrow> int" where
  "days_of_parts y mp d =
     (y div 400) * 146097
     + ((y mod 400) * 365 + (y mod 400) div 4 - (y mod 400) div 100 + (153 * mp + 2) div 5 + d - 1)
     - 719468"

definition days_from_civil :: "int \<Rightarrow> int \<Rightarrow> int \<Rightarrow> int" where
  "days_from_civil y m d = days_of_parts (if m \<le> 2 then y - 1 else y) ((m + 9) mod 12) d"

definition yoe_of_doe :: "int \<Rightarrow> int" where
  "yoe_of_doe doe = (doe - doe div 1460 + doe div 36524 - doe div 146096) div 365"

definition doy_of_doe :: "int \<Rightarrow> int \<Rightarrow> int" where
  "doy_of_doe doe yoe = doe - (365 * yoe + yoe div 4 - yoe div 100)"

definition civil_of_parts :: "int \<Rightarrow> int \<Rightarrow> int \<Rightarrow> int \<Rightarrow> int \<times> int \<times> int" where
  "civil_of_parts era yoe doy mp =
     (yoe + era * 400 + (if mp < 10 then 0 else 1),
      if mp < 10 then mp + 3 else mp - 9,
      doy - (153 * mp + 2) div 5 + 1)"

definition civil_of_doe :: "int \<Rightarrow> int \<Rightarrow> int \<Rightarrow> int \<times> int \<times> int" where
  "civil_of_doe era yoe doy = civil_of_parts era yoe doy ((5 * doy + 2) div 153)"

definition civil_from_days :: "int \<Rightarrow> int \<times> int \<times> int" where
  "civil_from_days z =
     civil_of_doe ((z + 719468) div 146097) (yoe_of_doe ((z + 719468) mod 146097))
       (doy_of_doe ((z + 719468) mod 146097) (yoe_of_doe ((z + 719468) mod 146097)))"

definition zone_offset :: "location \<Rightarrow> int" where
  "zone_offset loc = (case loc of UTC \<Rightarrow> 0 | Zone n \<Rightarrow> 3600)"

definition local_seconds :: "time \<Rightarrow> int" where
  "local_seconds t = inst t div 1000000000 + zone_offset (zone t)"

definition cet_Year :: "time \<Rightarrow> int" where
  "cet_Year t = fst (civil_from_days (local_seconds t div 86400))"

definition cet_Month :: "time \<Rightarrow> int" where
  "cet_Month t = fst (snd (civil_from_days (local_seconds t div 86400)))"

definition cet_Day :: "time \<Rightarrow> int" where
  "cet_Day t = snd (snd (civil_from_days (local_seconds t div 86400)))"

definition cet_Date :: "int \<Rightarrow> int \<Rightarrow> int \<Rightarrow> int \<Rightarrow> location \<Rightarrow> instant" where
  "cet_Date y m d h loc =
     (days_from_civil y m d * 86400 + h * 3600 - zone_offset loc) * 1000000000"

definition digit :: "nat \<Rightarrow> char" where
  "digit n = ''0123456789'' ! (n mod 10)"

definition dec2 :: "nat \<Rightarrow> string" where
  "dec2 n = [digit (n div 10), digit n]"

definition dec4 :: "nat \<Rightarrow> string" where
  "dec4 n = [digit (n div 1000), digit (n div 100), digit (n div 10), digit n]"

fun dec :: "nat \<Rightarrow> string" where
  "dec n = (if n < 10 then [digit n] else dec (n div 10) @ [digit n])"

fun clock_text :: "nat \<Rightarrow> nat \<Rightarrow> bool \<Rightarrow> string" where
  "clock_text h m padded =
     (if padded then dec2 (if h mod 12 = 0 then 12 else h mod 12)
      else dec (if h mod 12 = 0 then 12 else h mod 12))
     @ '':'' @ dec2 m @ (if 12 \<le> h then '' PM'' else '' AM'')"

definition clock12 :: "time \<Rightarrow> bool \<Rightarrow> string" where
  "clock12 t padded =
     clock_text (nat (local_seconds t mod 86400) div 3600)
       (nat (local_seconds t mod 86400) div 60 mod 60) padded"

fun date_text :: "int \<times> int \<times> int \<Rightarrow> string" where
  "date_text (y, m, d) = dec4 (nat y) @ ''-'' @ dec2 (nat m) @ ''-'' @ dec2 (nat d)"

fun day_text :: "int \<Rightarrow> int \<times> int \<times> int \<Rightarrow> string" where
  "day_text days (y, m, d) =
     [''Thu'', ''Fri'', ''Sat'', ''Sun'', ''Mon'', ''Tue'', ''Wed''] ! nat (days mod 7)
     @ '', '' @ dec2 (nat d) @ '' ''
     @ [''Jan'', ''Feb'', ''Mar'', ''Apr'', ''May'', ''Jun'',
        ''Jul'', ''Aug'', ''Sep'', ''Oct'', ''Nov'', ''Dec''] ! nat (m - 1)
     @ '' '' @ dec4 (nat y)"

definition cet_Format :: "time \<Rightarrow> string \<Rightarrow> string" where
  "cet_Format t layout =
     (if layout = ''03:04 PM'' then clock12 t True
      else if layout = ''2006-01-02'' then
        date_text (civil_from_days (local_seconds t div 86400))
      else if layout = ''Mon, 02 Jan 2006 3:04 PM'' then
        day_text (local_seconds t div 86400) (civil_from_days (local_seconds t div 86400))
        @ '' '' @ clock12 t False
      else layout)"

definition digit_val :: "char \<Rightarrow> nat option" where
  "digit_val c =
     map_of [(CHR ''0'', 0), (CHR ''1'', 1), (CHR ''2'', 2), (CHR ''3'', 3), (CHR ''4'', 4),
             (CHR ''5'', 5), (CHR ''6'', 6), (CHR ''7'', 7), (CHR ''8'', 8), (CHR ''9'', 9)] c"

fun number :: "string \<Rightarrow> nat \<Rightarrow> nat option" where
  "number [] acc = Some acc"
| "number (c # cs) acc =
     (case digit_val c of None \<Rightarrow> None | Some v \<Rightarrow> number cs (10 * acc + v))"

definition days_in :: "nat \<Rightarrow> nat \<Rightarrow> nat" where
  "days_in m y =
     (if m = 2 then (if y mod 4 = 0 \<and> (y mod 100 \<noteq> 0 \<or> y mod 400 = 0) then 29 else 28)
      else if m = 4 \<or> m = 6 \<or> m = 9 \<or> m = 11 then 30 else 31)"

definition cet_ParseInLocation :: "string \<Rightarrow> string \<Rightarrow> location \<Rightarrow> string + instant" where
  "cet_ParseInLocation layout v loc =
     (if layout = ''2006-01-02 15:04'' \<and> length v = 16
         \<and> v ! 4 = CHR ''-'' \<and> v ! 7 = CHR ''-'' \<and> v ! 10 = CHR '' '' \<and> v ! 13 = CHR '':''
      then
        (case (number (take 4 v) 0, number (take 2 (drop 5 v)) 0, number (take 2 (drop 8 v)) 0,
               number (take 2 (drop 11 v)) 0, number (drop 14 v) 0) of
           (Some y, Some m, Some d, Some h, Some mi) \<Rightarrow>
             if 1 \<le> m \<and> m \<le> 12 \<and> 1 \<le> d \<and> d \<le> days_in m y \<and> h < 24 \<and> mi < 60
             then Inr (cet_Date (int y) (int m) (int d) (int h) loc + int mi * 60000000000)
             else Inl ''parsing time: out of range''
         | _ \<Rightarrow> Inl ''parsing time: cannot parse'')
      else Inl ''parsing time: cannot parse'')"

fun hms_text :: "bool \<Rightarrow> nat \<Rightarrow> string" where
  "hms_text neg u =
     (if neg then ''-'' else [])
     @ (if 0 < u div 3600 then dec (u div 3600) @ ''h'' else [])
     @ (if 0 < u div 60 then dec (u div 60 mod 60) @ ''m'' else [])
     @ dec (u mod 60) @ ''s''"

definition hms_String :: "duration \<Rightarrow> string" where
  "hms_String d = hms_text (sint d < 0) (nat \<bar>sint d\<bar> div 1000000000)"

definition example_clock :: "nat \<Rightarrow> instant" where
  "example_clock n = 1709283600000000000 + int n * 1000000"

definition example_lookup :: "string \<Rightarrow> string \<Rightarrow> string option" where
  "example_lookup phone cc =
     (if phone = ''+31612345678'' then None else Some ''API errors: no (correct) phone number found'')"

definition example_env :: env where
  "example_env =
     \<lparr>clock = example_clock,
      LoadLocation = (\<lambda>name. Inr (Zone name)),
      ParseInLocation = cet_ParseInLocation,
      Year = cet_Year, Month = cet_Month, Day = cet_Day, Date = cet_Date,
      Format = cet_Format,
      Duration_String = hms_String,
      lookup_Read = example_lookup,
      sms_Create = (\<lambda>m. Inr ''message accepted''),
      ParseFiles = (\<lambda>fs. None),
      ExecuteTemplate = (\<lambda>fs n d. None)\<rparr>"

definition world0 :: world where
  "world0 = \<lparr>ticks = 0, response = [], lookups = [], sent = [], logged = []\<rparr>"

definition example_post :: "string \<Rightarrow> string \<Rightarrow> string \<Rightarrow> request" where
  "example_post phone d t =
     \<lparr>Method = ''POST'',
      Form = [(''name'', ''Ada''), (''treatment'', ''Manicure''), (''phone'', phone),
              (''date'', d), (''time'', t)]\<rparr>"

section \<open>Auxiliary facts\<close>

declare dec.simps [simp del]

lemmas dec_eval = dec.simps [of 0] dec.simps [of 1] dec.simps [of "numeral k"] for k

lemma Split_not_Nil: "Split xs c \<noteq> []"
  by (induction xs) (auto split: list.splits)

lemma sint_duration_of_int:
  "- (2 ^ 63) \<le> k \<Longrightarrow> k < 2 ^ 63 \<Longrightarrow> sint (word_of_int k :: duration) = k"
  by (simp add: sint_sbintrunc' signed_take_bit_int_eq_self)

text \<open>Once the booking is not before now, the saturation of \<open>Sub\<close> cannot change the
  comparison with a lead time, which is itself a 64-bit duration.\<close>

lemma Sub_less_iff:
  assumes "inst u \<le> inst t"
  shows "sint (Sub t u) < sint (d :: duration) \<longleftrightarrow> inst t - inst u < sint d"
proof -
  have bd: "sint d \<le> maxDuration"
    using sint_lt [of d] by (simp add: maxDuration_def)
  show ?thesis
  proof (cases "maxDuration < inst t - inst u")
    case True
    then have "Sub t u = word_of_int maxDuration" by (simp add: Sub_def)
    moreover have "sint (word_of_int maxDuration :: duration) = maxDuration"
      by (simp add: maxDuration_def sint_duration_of_int)
    ultimately show ?thesis using True bd by simp
  next
    case False
    with assms have "Sub t u = word_of_int (inst t - inst u)"
      by (simp add: Sub_def minDuration_def)
    moreover have "sint (word_of_int (inst t - inst u) :: duration) = inst t - inst u"
      using False assms by (intro sint_duration_of_int) (simp_all add: maxDuration_def)
    ultimately show ?thesis by simp
  qed
qed

text \<open>The sentence \<open>checkTime\<close> returns, by the instants alone.\<close>

lemma checkTime_status:
  "fst (checkTime e s b d loc) =
     (if inst b < clock e (ticks s) then Inr ''Cannot make a booking before now. Please try again!''
      else if inst b < openingInstant e b loc then
        Inr (''We're not open yet! Please book your appointment between ''
             @ Format e \<lparr>inst = openingInstant e b loc, zone = loc\<rparr> ''03:04 PM'' @ '' and ''
             @ Format e \<lparr>inst = closingInstant e b loc, zone = loc\<rparr> ''03:04 PM'' @ ''.'')
      else if closingInstant e b loc < inst b then
        Inr (''We're closed! Please book your appointment between ''
             @ Format e \<lparr>inst = openingInstant e b loc, zone = loc\<rparr> ''03:04 PM'' @ '' and ''
             @ Format e \<lparr>inst = closingInstant e b loc, zone = loc\<rparr> ''03:04 PM'' @ ''.'')
      else if inst b - clock e (ticks s) < sint d then
        Inr (''Please book an appointment '' @ hd (Split (Duration_String e d) (CHR ''h''))
             @ '' hours in advance.'')
      else Inr ''Success!'')"
proof -
  obtain x xs where sp: "Split (Duration_String e d) (CHR ''h'') = x # xs"
    using Split_not_Nil [of "Duration_String e d" "CHR ''h''"]
    by (cases "Split (Duration_String e d) (CHR ''h'')") auto
  show ?thesis
  proof (cases "inst b < clock e (ticks s)")
    case True
    then show ?thesis
      by (simp add: checkTime_def Now_In_def Before_def Let_def)
  next
    case False
    then have "sint (Sub b \<lparr>inst = clock e (ticks s), zone = loc\<rparr>) < sint d
        \<longleftrightarrow> inst b - clock e (ticks s) < sint d"
      using Sub_less_iff [of "\<lparr>inst = clock e (ticks s), zone = loc\<rparr>" b d] by simp
    with False sp show ?thesis
      by (simp add: checkTime_def Now_In_def Before_def After_def Let_def
          openingInstant_def closingInstant_def)
  qed
qed

lemma checkTime_world: "snd (checkTime e s b d loc) = s\<lparr>ticks := Suc (ticks s)\<rparr>"
  by (simp add: checkTime_def Now_In_def Let_def split: list.split)

text \<open>Facts for running the concrete environment.\<close>

lemmas example_simps =
  example_env_def example_clock_def example_lookup_def world0_def example_post_def
  cet_Year_def cet_Month_def cet_Day_def cet_Date_def cet_Format_def cet_ParseInLocation_def
  civil_from_days_def civil_of_doe_def civil_of_parts_def doy_of_doe_def yoe_of_doe_def
  days_from_civil_def days_of_parts_def zone_offset_def local_seconds_def
  clock12_def dec_eval dec2_def dec4_def digit_def digit_val_def days_in_def hms_String_def
  openingInstant_def closingInstant_def Hour_def

section \<open>The time validator\<close>

text \<open>
  C1. The rejection conditions are tried in a fixed order and the first that holds
  decides: before now, then before the opening instant of the booking's date, then
  after its closing instant, then closer to now than the lead time; otherwise the
  booking is valid. Now is the clock reading the routine takes.
\<close>

theorem checkTime_priority_order:
  "outcome (fst (checkTime e s bookingTime reminderDiff loc)) =
     Some (if inst bookingTime < clock e (ticks s) then BeforeNow
           else if inst bookingTime < openingInstant e bookingTime loc then BeforeOpening
           else if closingInstant e bookingTime loc < inst bookingTime then AfterClosing
           else if inst bookingTime - clock e (ticks s) < sint reminderDiff then TooSoon
           else Valid)"
  by (simp add: checkTime_status outcome_def outcome_of_status_def)

text \<open>Now is 2024-03-01 10:00. A booking for 2024-02-29 09:00 is before now although it
  is exactly at opening; 08:00 of the next day is before opening; 19:00, 11:00 and 14:00
  of 2024-03-01 are after closing, too soon and valid.\<close>

theorem checkTime_priority_order_witness:
  "outcome (fst (checkTime example_env world0
       \<lparr>inst = 1709193600000000000, zone = Zone ''Europe/Amsterdam''\<rparr> (3 * Hour)
       (Zone ''Europe/Amsterdam''))) = Some BeforeNow
   \<and> outcome (fst (checkTime example_env world0
       \<lparr>inst = 1709362800000000000, zone = Zone ''Europe/Amsterdam''\<rparr> (3 * Hour)
       (Zone ''Europe/Amsterdam''))) = Some BeforeOpening
   \<and> outcome (fst (checkTime example_env world0
       \<lparr>inst = 1709316000000000000, zone = Zone ''Europe/Amsterdam''\<rparr> (3 * Hour)
       (Zone ''Europe/Amsterdam''))) = Some AfterClosing
   \<and> outcome (fst (checkTime example_env world0
       \<lparr>inst = 1709287200000000000, zone = Zone ''Europe/Amsterdam''\<rparr> (3 * Hour)
       (Zone ''Europe/Amsterdam''))) = Some TooSoon
   \<and> outcome (fst (checkTime example_env world0
       \<lparr>inst = 1709298000000000000, zone = Zone ''Europe/Amsterdam''\<rparr> (3 * Hour)
       (Zone ''Europe/Amsterdam''))) = Some Valid"
  using
    checkTime_priority_order [of example_env world0
      "\<lparr>inst = 1709193600000000000, zone = Zone ''Europe/Amsterdam''\<rparr>" "3 * Hour"
      "Zone ''Europe/Amsterdam''"]
    checkTime_priority_order [of example_env world0
      "\<lparr>inst = 1709362800000000000, zone = Zone ''Europe/Amsterdam''\<rparr>" "3 * Hour"
      "Zone ''Europe/Amsterdam''"]
    checkTime_priority_order [of example_env world0
      "\<lparr>inst = 1709316000000000000, zone = Zone ''Europe/Amsterdam''\<rparr>" "3 * Hour"
      "Zone ''Europe/Amsterdam''"]
    checkTime_priority_order [of example_env world0
      "\<lparr>inst = 1709287200000000000, zone = Zone ''Europe/Amsterdam''\<rparr>" "3 * Hour"
      "Zone ''Europe/Amsterdam''"]
    checkTime_priority_order [of example_env world0
      "\<lparr>inst = 1709298000000000000, zone = Zone ''Europe/Amsterdam''\<rparr>" "3 * Hour"
      "Zone ''Europe/Amsterdam''"]
  by (simp add: example_simps)


text \<open>
  C2. The comparisons are inclusive on the valid side: a booking exactly at now is not
  rejected as before now, one exactly at the opening instant not as before opening, one
  exactly at the closing instant not as after closing, and one exactly the lead time
  after now not as too soon.
\<close>

theorem checkTime_boundaries_inclusive:
  "(inst b = clock e (ticks s) \<longrightarrow> outcome (fst (checkTime e s b d loc)) \<noteq> Some BeforeNow)
   \<and> (inst b = openingInstant e b loc \<longrightarrow>
        outcome (fst (checkTime e s b d loc)) \<noteq> Some BeforeOpening)
   \<and> (inst b = closingInstant e b loc \<longrightarrow>
        outcome (fst (checkTime e s b d loc)) \<noteq> Some AfterClosing)
   \<and> (inst b - clock e (ticks s) = sint d \<longrightarrow>
        outcome (fst (checkTime e s b d loc)) \<noteq> Some TooSoon)"
  by (simp add: checkTime_status outcome_def outcome_of_status_def)

text \<open>With now at 2024-03-01 10:00: bookings for 10:00 (now), for 09:00 of the next day
  (opening), for 18:00 (closing) and for 13:00 (now plus three hours).\<close>

theorem checkTime_boundaries_inclusive_witness:
  "(inst \<lparr>inst = 1709283600000000000, zone = Zone ''Europe/Amsterdam''\<rparr>
      = clock example_env (ticks world0)
    \<and> outcome (fst (checkTime example_env world0
          \<lparr>inst = 1709283600000000000, zone = Zone ''Europe/Amsterdam''\<rparr> (3 * Hour)
          (Zone ''Europe/Amsterdam''))) \<noteq> Some BeforeNow)
   \<and> (inst \<lparr>inst = 1709366400000000000, zone = Zone ''Europe/Amsterdam''\<rparr>
      = openingInstant example_env
          \<lparr>inst = 1709366400000000000, zone = Zone ''Europe/Amsterdam''\<rparr>
          (Zone ''Europe/Amsterdam'')
    \<and> outcome (fst (checkTime example_env world0
          \<lparr>inst = 1709366400000000000, zone = Zone ''Europe/Amsterdam''\<rparr> (3 * Hour)
          (Zone ''Europe/Amsterdam''))) \<noteq> Some BeforeOpening)
   \<and> (inst \<lparr>inst = 1709312400000000000, zone = Zone ''Europe/Amsterdam''\<rparr>
      = closingInstant example_env
          \<lparr>inst = 1709312400000000000, zone = Zone ''Europe/Amsterdam''\<rparr>
          (Zone ''Europe/Amsterdam'')
    \<and> outcome (fst (checkTime example_env world0
          \<lparr>inst = 1709312400000000000, zone = Zone ''Europe/Amsterdam''\<rparr> (3 * Hour)
          (Zone ''Europe/Amsterdam''))) \<noteq> Some AfterClosing)
   \<and> (inst \<lparr>inst = 1709294400000000000, zone = Zone ''Europe/Amsterdam''\<rparr>
        - clock example_env (ticks world0) = sint (3 * Hour)
    \<and> outcome (fst (checkTime example_env world0
          \<lparr>inst = 1709294400000000000, zone = Zone ''Europe/Amsterdam''\<rparr> (3 * Hour)
          (Zone ''Europe/Amsterdam''))) \<noteq> Some TooSoon)"
  using
    checkTime_boundaries_inclusive [of
      "\<lparr>inst = 1709283600000000000, zone = Zone ''Europe/Amsterdam''\<rparr>" example_env world0
      "3 * Hour" "Zone ''Europe/Amsterdam''"]
    checkTime_boundaries_inclusive [of
      "\<lparr>inst = 1709366400000000000, zone = Zone ''Europe/Amsterdam''\<rparr>" example_env world0
      "3 * Hour" "Zone ''Europe/Amsterdam''"]
    checkTime_boundaries_inclusive [of
      "\<lparr>inst = 1709312400000000000, zone = Zone ''Europe/Amsterdam''\<rparr>" example_env world0
      "3 * Hour" "Zone ''Europe/Amsterdam''"]
    checkTime_boundaries_inclusive [of
      "\<lparr>inst = 1709294400000000000, zone = Zone ''Europe/Amsterdam''\<rparr>" example_env world0
      "3 * Hour" "Zone ''Europe/Amsterdam''"]
  by (simp add: example_simps)

text \<open>
  C3. A booking at or after now, at or after the opening instant of its date, at or
  before the closing instant of that date, and at least the lead time after now, is
  valid: \<open>checkTime\<close> returns the success sentence.
\<close>

theorem checkTime_valid:
  assumes "clock e (ticks s) \<le> inst b"
    and "openingInstant e b loc \<le> inst b"
    and "inst b \<le> closingInstant e b loc"
    and "sint d \<le> inst b - clock e (ticks s)"
  shows "fst (checkTime e s b d loc) = Inr ''Success!''
         \<and> outcome (fst (checkTime e s b d loc)) = Some Valid"
  using assms by (simp add: checkTime_status outcome_def outcome_of_status_def)

text \<open>Business hours 09:00 to 18:00, three hours of lead time, now 2024-03-01 10:00, a
  booking for 14:00 of that day.\<close>

theorem checkTime_valid_witness:
  "clock example_env (ticks world0)
     \<le> inst \<lparr>inst = 1709298000000000000, zone = Zone ''Europe/Amsterdam''\<rparr>
   \<and> openingInstant example_env
        \<lparr>inst = 1709298000000000000, zone = Zone ''Europe/Amsterdam''\<rparr>
        (Zone ''Europe/Amsterdam'')
     \<le> inst \<lparr>inst = 1709298000000000000, zone = Zone ''Europe/Amsterdam''\<rparr>
   \<and> inst \<lparr>inst = 1709298000000000000, zone = Zone ''Europe/Amsterdam''\<rparr>
     \<le> closingInstant example_env
          \<lparr>inst = 1709298000000000000, zone = Zone ''Europe/Amsterdam''\<rparr>
          (Zone ''Europe/Amsterdam'')
   \<and> sint (3 * Hour)
     \<le> inst \<lparr>inst = 1709298000000000000, zone = Zone ''Europe/Amsterdam''\<rparr>
        - clock example_env (ticks world0)
   \<and> fst (checkTime example_env world0
        \<lparr>inst = 1709298000000000000, zone = Zone ''Europe/Amsterdam''\<rparr> (3 * Hour)
        (Zone ''Europe/Amsterdam'')) = Inr ''Success!''"
  using checkTime_valid [of example_env world0
      "\<lparr>inst = 1709298000000000000, zone = Zone ''Europe/Amsterdam''\<rparr>"
      "Zone ''Europe/Amsterdam''" "3 * Hour"]
  by (simp add: example_simps)

text \<open>
  C8. \<open>checkTime\<close> always returns, and what it returns is a sentence, never a failure and
  never the empty string, that stands for one of the five variants.
\<close>

theorem checkTime_total:
  "\<exists>st v. fst (checkTime e s b d loc) = Inr st \<and> st \<noteq> [] \<and> outcome_of_status st = Some v"
  by (simp add: checkTime_status outcome_of_status_def)

theorem checkTime_total_witness:
  "\<exists>st v. fst (checkTime example_env world0 zero_time 0 UTC) = Inr st
     \<and> st \<noteq> [] \<and> outcome_of_status st = Some v"
  using checkTime_total [of example_env world0 zero_time 0 UTC] by simp

text \<open>
  C9. \<open>checkTime\<close> leaves the response untouched: the world it returns differs from the
  one it was given only in the clock reading taken. What is written to the response is
  written by the handler.
\<close>

theorem checkTime_leaves_response:
  "response (snd (checkTime e s b d loc)) = response s
   \<and> snd (checkTime e s b d loc) = s\<lparr>ticks := Suc (ticks s)\<rparr>"
  by (simp add: checkTime_world)

theorem checkTime_leaves_response_witness:
  "response (snd (checkTime example_env world0
      \<lparr>inst = 1709298000000000000, zone = Zone ''Europe/Amsterdam''\<rparr> (3 * Hour)
      (Zone ''Europe/Amsterdam''))) = []"
  using checkTime_leaves_response [of example_env world0
      "\<lparr>inst = 1709298000000000000, zone = Zone ''Europe/Amsterdam''\<rparr>" "3 * Hour"
      "Zone ''Europe/Amsterdam''"]
  by (simp add: world0_def)

text \<open>
  C4. As stated the claim fails: \<open>checkTime\<close> reads the system clock itself, so two calls
  with the same booking, lead time and location can differ. Two consecutive calls for a
  booking exactly three hours ahead of the first reading: the first succeeds, the second,
  a millisecond later, is too soon.
\<close>

theorem checkTime_not_function_of_arguments:
  "fst (checkTime example_env world0
      \<lparr>inst = 1709294400000000000, zone = Zone ''Europe/Amsterdam''\<rparr> (3 * Hour)
      (Zone ''Europe/Amsterdam'')) = Inr ''Success!''
   \<and> fst (checkTime example_env
        (snd (checkTime example_env world0
           \<lparr>inst = 1709294400000000000, zone = Zone ''Europe/Amsterdam''\<rparr> (3 * Hour)
           (Zone ''Europe/Amsterdam'')))
        \<lparr>inst = 1709294400000000000, zone = Zone ''Europe/Amsterdam''\<rparr> (3 * Hour)
        (Zone ''Europe/Amsterdam''))
      = Inr ''Please book an appointment 3 hours in advance.''"
  by (simp add: checkTime_status checkTime_world example_simps)

text \<open>
  C4, amended. The sentence returned is determined by the booking, the lead time, the
  location and the clock reading taken inside the routine: two calls with the same
  arguments that read the same time return the same sentence, whatever else differs
  between the worlds they run in.
\<close>

theorem checkTime_depends_on_clock:
  assumes "clock e (ticks s) = clock e (ticks s')"
  shows "fst (checkTime e s b d loc) = fst (checkTime e s' b d loc)"
  using assms by (simp add: checkTime_status)

theorem checkTime_depends_on_clock_witness:
  "clock example_env (ticks world0) = clock example_env (ticks (world0\<lparr>logged := [''started'']\<rparr>))
   \<and> fst (checkTime example_env world0
        \<lparr>inst = 1709294400000000000, zone = Zone ''Europe/Amsterdam''\<rparr> (3 * Hour)
        (Zone ''Europe/Amsterdam''))
     = fst (checkTime example_env (world0\<lparr>logged := [''started'']\<rparr>)
        \<lparr>inst = 1709294400000000000, zone = Zone ''Europe/Amsterdam''\<rparr> (3 * Hour)
        (Zone ''Europe/Amsterdam''))"
  using checkTime_depends_on_clock [of example_env world0 "world0\<lparr>logged := [''started'']\<rparr>"
      "\<lparr>inst = 1709294400000000000, zone = Zone ''Europe/Amsterdam''\<rparr>" "3 * Hour"
      "Zone ''Europe/Amsterdam''"]
  by (simp add: world0_def)

section \<open>The request handler\<close>

lemma checkTime_returns: "\<exists>st. fst (checkTime e s b d loc) = Inr st \<and> st \<noteq> []"
  by (simp add: checkTime_status)

lemma checkTime_pair:
  "checkTime e s b d loc = (fst (checkTime e s b d loc), s\<lparr>ticks := Suc (ticks s)\<rparr>)"
  by (simp add: prod_eq_iff checkTime_world)

lemma Render_ok:
  "templates_ok e \<Longrightarrow>
   RenderDefaultTemplate e s v d = (None, s\<lparr>response := response s @ [Page v d]\<rparr>)"
  by (simp add: RenderDefaultTemplate_def templates_ok_def)

lemma Render_sent: "sent (snd (RenderDefaultTemplate e s v d)) = sent s"
  by (simp add: RenderDefaultTemplate_def log_Println_def Let_def split: option.split)

lemma Render_lookups: "lookups (snd (RenderDefaultTemplate e s v d)) = lookups s"
  by (simp add: RenderDefaultTemplate_def log_Println_def Let_def split: option.split)

lemma Render_logged: "prefix (logged s) (logged (snd (RenderDefaultTemplate e s v d)))"
  by (simp add: RenderDefaultTemplate_def log_Println_def Let_def split: option.split)

lemma world_at_check_simps:
  "ticks (world_at_check e s r loc) = Suc (Suc (ticks s))"
  "sent (world_at_check e s r loc) = sent s"
  "response (world_at_check e s r loc) = response s"
  "lookups (world_at_check e s r loc) = lookups s @ [(FormValue r ''phone'', ''NL'')]"
  by (simp_all add: world_at_check_def log_Println_def split: sum.split)

lemma world_at_check_logged:
  "ParseInLocation e ''2006-01-02 15:04'' (FormValue r ''date'' @ '' '' @ FormValue r ''time'') loc
     = Inl err \<Longrightarrow> logged (world_at_check e s r loc) = logged s @ [err]"
  by (simp add: world_at_check_def log_Println_def)

text \<open>The POST branch, in terms of the pieces named above.\<close>

lemma bbScheduler_POST:
  assumes "LoadLocation e ''Europe/Amsterdam'' = Inr loc"
    and "Method r = ''POST''"
  shows "bbScheduler e s r =
     (case lookup_Read e (FormValue r ''phone'') ''NL'' of
        Some err \<Rightarrow>
          RenderDefaultTemplate e (world_at_check e s r loc) ''views/booking.gohtml''
            \<lparr>Booking = submitted_booking e s r loc,
             Message = ''Please enter a valid phone number.''\<rparr>
      | None \<Rightarrow>
          after_check e s r loc
            (checkTime e (world_at_check e s r loc) (submitted_time e r loc) (3 * Hour) loc))"
proof (cases "ParseInLocation e ''2006-01-02 15:04''
                (FormValue r ''date'' @ '' '' @ FormValue r ''time'') loc")
  case (Inl err)
  with assms show ?thesis
    by (simp add: bbScheduler_def Now_In_def world_at_check_def submitted_booking_def
        submitted_time_def log_Println_def after_check_def reminder_request_def
        success_status_def empty_booking_def Let_def
        split: option.split prod.split sum.split)
next
  case (Inr i)
  with assms show ?thesis
    by (simp add: bbScheduler_def Now_In_def world_at_check_def submitted_booking_def
        submitted_time_def log_Println_def after_check_def reminder_request_def
        success_status_def empty_booking_def Let_def
        split: option.split prod.split sum.split)
qed

lemma bbScheduler_no_zone:
  "LoadLocation e ''Europe/Amsterdam'' = Inl err \<Longrightarrow>
   bbScheduler e s r =
     (Some (Panic ''time: missing Location in call to Time.In''),
      (log_Println err s)\<lparr>ticks := Suc (ticks s)\<rparr>)"
  by (simp add: bbScheduler_def)

text \<open>What the handler does with a sentence returned by \<open>checkTime\<close>.\<close>

lemma after_check_success_sent:
  "sent (snd (after_check e s r loc (Inr ''Success!'', w))) = sent w @ [reminder_request e r loc]"
  by (simp add: after_check_def Render_sent log_Println_def split: sum.split)

lemma after_check_rejected:
  "st \<noteq> ''Success!'' \<Longrightarrow> st \<noteq> [] \<Longrightarrow>
   after_check e s r loc (Inr st, w) =
     RenderDefaultTemplate e w ''views/booking.gohtml''
       \<lparr>Booking = submitted_booking e s r loc, Message = st\<rparr>"
  by (simp add: after_check_def)

lemma after_check_lookups:
  "lookups (snd (after_check e s r loc (res, w))) = lookups w"
  by (cases res)
     (simp_all add: after_check_def Render_lookups log_Println_def split: sum.split)

lemma after_check_logged:
  "prefix (logged w) (logged (snd (after_check e s r loc (res, w))))"
proof (cases res)
  case (Inl f)
  then show ?thesis by (simp add: after_check_def)
next
  case (Inr st)
  have "prefix (logged w) (logged (log_Println m (w\<lparr>sent := sent w @ [q]\<rparr>)))" for m q
    by (simp add: log_Println_def)
  then have "prefix (logged w)
      (logged (snd (RenderDefaultTemplate e (log_Println m (w\<lparr>sent := sent w @ [q]\<rparr>)) v c)))"
    for m q v c
    using Render_logged prefix_order.trans by blast
  with Inr show ?thesis
    by (simp add: after_check_def Render_logged split: sum.split)
qed

lemma after_check_message:
  assumes "templates_ok e" and "st \<noteq> []"
  shows "response (snd (after_check e s r loc (Inr st, w))) =
     response w @
     [Page ''views/booking.gohtml''
        \<lparr>Booking = submitted_booking e s r loc,
         Message =
           (if st = ''Success!'' then
              (case sms_Create e (reminder_request e r loc) of
                 Inl x \<Rightarrow> x @ [CHR 0x0A] @ ''. Please check your details and try again!''
               | Inr m \<Rightarrow> success_status e r loc)
            else st)\<rparr>]"
  using assms
  by (simp add: after_check_def Render_ok log_Println_def split: sum.split)

lemma templates_ok_example: "templates_ok example_env"
  by (simp add: templates_ok_def example_env_def)

lemmas handler_simps =
  FormValue_def submitted_time_def submitted_booking_def world_at_check_def log_Println_def
  reminder_request_def zero_time_def

text \<open>
  C6. For a POST whose phone number the lookup rejects (the call returns an error,
  whatever its cause) the SMS service is not called. When the zone is loaded and the
  templates work, the handler returns after writing one page: the booking form filled
  with the submitted name, treatment and phone, and the request for a valid phone number.
\<close>

theorem invalid_phone_renders_form:
  assumes "Method r = ''POST''"
    and "lookup_Read e (FormValue r ''phone'') ''NL'' = Some err"
  shows "sent (snd (bbScheduler e s r)) = sent s
     \<and> (LoadLocation e ''Europe/Amsterdam'' = Inr loc \<and> templates_ok e \<longrightarrow>
          fst (bbScheduler e s r) = None
          \<and> response (snd (bbScheduler e s r)) =
              response s @
              [Page ''views/booking.gohtml''
                 \<lparr>Booking =
                    \<lparr>Name = FormValue r ''name'',
                     Treatment = FormValue r ''treatment'',
                     Phone = FormValue r ''phone'',
                     BookingTime = Some (submitted_time e r loc),
                     MinDate = Format e \<lparr>inst = clock e (Suc (ticks s)), zone = loc\<rparr>
                                 ''2006-01-02''\<rparr>,
                  Message = ''Please enter a valid phone number.''\<rparr>])"
proof (cases "LoadLocation e ''Europe/Amsterdam''")
  case (Inl x)
  then show ?thesis
    by (simp add: bbScheduler_no_zone log_Println_def)
next
  case (Inr z)
  with assms show ?thesis
    by (auto simp add: bbScheduler_POST Render_sent world_at_check_simps Render_ok
        submitted_booking_def)
qed

theorem invalid_phone_renders_form_witness:
  "Method (example_post ''0612'' ''2024-03-01'' ''14:00'') = ''POST''
   \<and> lookup_Read example_env (FormValue (example_post ''0612'' ''2024-03-01'' ''14:00'') ''phone'')
        ''NL'' = Some ''API errors: no (correct) phone number found''
   \<and> LoadLocation example_env ''Europe/Amsterdam'' = Inr (Zone ''Europe/Amsterdam'')
   \<and> templates_ok example_env
   \<and> sent (snd (bbScheduler example_env world0 (example_post ''0612'' ''2024-03-01'' ''14:00'')))
       = []
   \<and> fst (bbScheduler example_env world0 (example_post ''0612'' ''2024-03-01'' ''14:00'')) = None
   \<and> response (snd (bbScheduler example_env world0
         (example_post ''0612'' ''2024-03-01'' ''14:00''))) =
       [Page ''views/booking.gohtml''
          \<lparr>Booking =
             \<lparr>Name = ''Ada'', Treatment = ''Manicure'', Phone = ''0612'',
              BookingTime = Some \<lparr>inst = 1709298000000000000, zone = Zone ''Europe/Amsterdam''\<rparr>,
              MinDate = ''2024-03-01''\<rparr>,
           Message = ''Please enter a valid phone number.''\<rparr>]"
  using invalid_phone_renders_form [of "example_post ''0612'' ''2024-03-01'' ''14:00''"
      example_env "''API errors: no (correct) phone number found''" world0
      "Zone ''Europe/Amsterdam''"]
    templates_ok_example
  by (simp add: example_simps handler_simps)


text \<open>
  C7. For a POST that passes the phone check, with the zone loaded: when the time
  validation is passed the SMS service is called exactly once, for the submitted phone,
  to send at the booking instant minus three hours; when it is not passed the SMS service
  is not called and, the templates working, the page written carries the sentence of the
  rejection.
\<close>

theorem valid_submission_schedules_reminder:
  assumes "LoadLocation e ''Europe/Amsterdam'' = Inr loc"
    and "Method r = ''POST''"
    and "lookup_Read e (FormValue r ''phone'') ''NL'' = None"
  shows "(outcome (fst (checkTime e (world_at_check e s r loc) (submitted_time e r loc)
                     (3 * Hour) loc)) = Some Valid \<longrightarrow>
            sent (snd (bbScheduler e s r)) = sent s @ [reminder_request e r loc]
            \<and> recipients (reminder_request e r loc) = [FormValue r ''phone'']
            \<and> ScheduledDatetime (reminder_request e r loc) =
                \<lparr>inst = inst (submitted_time e r loc) - 3 * 3600 * 1000000000,
                 zone = zone (submitted_time e r loc)\<rparr>)
     \<and> (outcome (fst (checkTime e (world_at_check e s r loc) (submitted_time e r loc)
                     (3 * Hour) loc)) \<noteq> Some Valid \<longrightarrow>
            sent (snd (bbScheduler e s r)) = sent s
            \<and> (templates_ok e \<longrightarrow>
                 (\<exists>st. fst (checkTime e (world_at_check e s r loc) (submitted_time e r loc)
                               (3 * Hour) loc) = Inr st
                    \<and> response (snd (bbScheduler e s r)) =
                        response s @
                        [Page ''views/booking.gohtml''
                           \<lparr>Booking = submitted_booking e s r loc, Message = st\<rparr>])))"
proof -
  let ?w = "world_at_check e s r loc"
  let ?res = "checkTime e ?w (submitted_time e r loc) (3 * Hour) loc"
  let ?w' = "?w\<lparr>ticks := Suc (ticks ?w)\<rparr>"
  obtain st where st: "fst ?res = Inr st" "st \<noteq> []"
    using checkTime_returns by blast
  have run: "bbScheduler e s r = after_check e s r loc (Inr st, ?w')"
    using assms st(1) checkTime_pair [of e ?w "submitted_time e r loc" "3 * Hour" loc]
    by (simp add: bbScheduler_POST)
  have valid: "outcome (fst ?res) = Some Valid \<longleftrightarrow> st = ''Success!''"
    using st(1) by (simp add: outcome_def outcome_of_status_def)
  have at_time: "ScheduledDatetime (reminder_request e r loc) =
      \<lparr>inst = inst (submitted_time e r loc) - 3 * 3600 * 1000000000,
       zone = zone (submitted_time e r loc)\<rparr>"
    by (simp add: reminder_request_def Add_def Hour_def)
  have to_phone: "recipients (reminder_request e r loc) = [FormValue r ''phone'']"
    by (simp add: reminder_request_def)
  show ?thesis
  proof (cases "st = ''Success!''")
    case True
    then show ?thesis
      using run valid at_time to_phone
      by (simp add: after_check_success_sent world_at_check_simps)
  next
    case False
    then have "bbScheduler e s r =
        RenderDefaultTemplate e ?w' ''views/booking.gohtml''
          \<lparr>Booking = submitted_booking e s r loc, Message = st\<rparr>"
      using run st(2) by (simp add: after_check_rejected)
    then show ?thesis
      using False valid st(1)
      by (simp add: Render_sent Render_ok world_at_check_simps)
  qed
qed

text \<open>With now at 2024-03-01 10:00 and a valid phone: the submission for 14:00 has its
  reminder scheduled for 11:00; the submission for 11:00 is rejected as too soon and
  nothing is scheduled.\<close>

theorem valid_submission_schedules_reminder_witness:
  "LoadLocation example_env ''Europe/Amsterdam'' = Inr (Zone ''Europe/Amsterdam'')
   \<and> Method (example_post ''+31612345678'' ''2024-03-01'' ''14:00'') = ''POST''
   \<and> lookup_Read example_env
        (FormValue (example_post ''+31612345678'' ''2024-03-01'' ''14:00'') ''phone'') ''NL'' = None
   \<and> sent (snd (bbScheduler example_env world0
        (example_post ''+31612345678'' ''2024-03-01'' ''14:00''))) =
       [\<lparr>originator = ''BeautyBird'', recipients = [''+31612345678''],
         body = ''Gentle reminder: you've got an appointment with BeautyBird at Fri, 01 Mar 2024 2:00 PM. See you then!'',
         ScheduledDatetime = \<lparr>inst = 1709287200000000000, zone = Zone ''Europe/Amsterdam''\<rparr>\<rparr>]
   \<and> sent (snd (bbScheduler example_env world0
        (example_post ''+31612345678'' ''2024-03-01'' ''11:00''))) = []
   \<and> response (snd (bbScheduler example_env world0
        (example_post ''+31612345678'' ''2024-03-01'' ''11:00''))) =
       [Page ''views/booking.gohtml''
          \<lparr>Booking =
             \<lparr>Name = ''Ada'', Treatment = ''Manicure'', Phone = ''+31612345678'',
              BookingTime = Some \<lparr>inst = 1709287200000000000, zone = Zone ''Europe/Amsterdam''\<rparr>,
              MinDate = ''2024-03-01''\<rparr>,
           Message = ''Please book an appointment 3 hours in advance.''\<rparr>]"
  using
    valid_submission_schedules_reminder [of example_env "Zone ''Europe/Amsterdam''"
      "example_post ''+31612345678'' ''2024-03-01'' ''14:00''" world0]
    valid_submission_schedules_reminder [of example_env "Zone ''Europe/Amsterdam''"
      "example_post ''+31612345678'' ''2024-03-01'' ''11:00''" world0]
    templates_ok_example
  by (simp add: checkTime_status outcome_def outcome_of_status_def example_simps handler_simps)

lemma example_unparsed_status:
  "fst (checkTime example_env
          (world_at_check example_env world0
             (example_post ''+31612345678'' ''01/03/2024'' ''14:00'') (Zone ''Europe/Amsterdam''))
          (submitted_time example_env
             (example_post ''+31612345678'' ''01/03/2024'' ''14:00'') (Zone ''Europe/Amsterdam''))
          (3 * Hour) (Zone ''Europe/Amsterdam''))
     = Inr ''Cannot make a booking before now. Please try again!''"
  by (simp add: checkTime_status world_at_check_simps example_simps FormValue_def
      submitted_time_def zero_time_def)


lemma example_unparsed_run:
  "bbScheduler example_env world0 (example_post ''+31612345678'' ''01/03/2024'' ''14:00'') =
     RenderDefaultTemplate example_env
       ((world_at_check example_env world0
           (example_post ''+31612345678'' ''01/03/2024'' ''14:00'') (Zone ''Europe/Amsterdam''))
        \<lparr>ticks := Suc (Suc (Suc 0))\<rparr>)
       ''views/booking.gohtml''
       \<lparr>Booking = submitted_booking example_env world0
                    (example_post ''+31612345678'' ''01/03/2024'' ''14:00'')
                    (Zone ''Europe/Amsterdam''),
        Message = ''Cannot make a booking before now. Please try again!''\<rparr>"
proof -
  let ?r = "example_post ''+31612345678'' ''01/03/2024'' ''14:00''"
  let ?loc = "Zone ''Europe/Amsterdam''"
  let ?w = "world_at_check example_env world0 ?r ?loc"
  have zone: "LoadLocation example_env ''Europe/Amsterdam'' = Inr ?loc"
    by (simp add: example_env_def)
  have post: "Method ?r = ''POST''"
    by (simp add: example_post_def)
  have phone: "lookup_Read example_env (FormValue ?r ''phone'') ''NL'' = None"
    by (simp add: example_env_def example_lookup_def example_post_def FormValue_def)
  have ticks: "ticks ?w = Suc (Suc 0)"
    by (simp add: world_at_check_simps world0_def)
  have "checkTime example_env ?w (submitted_time example_env ?r ?loc) (3 * Hour) ?loc =
      (Inr ''Cannot make a booking before now. Please try again!'',
       ?w\<lparr>ticks := Suc (Suc (Suc 0))\<rparr>)"
    using checkTime_pair [of example_env ?w "submitted_time example_env ?r ?loc" "3 * Hour" ?loc]
    unfolding example_unparsed_status ticks .
  then have "bbScheduler example_env world0 ?r =
      after_check example_env world0 ?r ?loc
        (Inr ''Cannot make a booking before now. Please try again!'',
         ?w\<lparr>ticks := Suc (Suc (Suc 0))\<rparr>)"
    unfolding bbScheduler_POST [OF zone post] phone by simp
  then show ?thesis
    by (simp add: after_check_rejected)
qed

text \<open>
  C5. As stated the claim fails: a parse error is logged and the handler goes on with
  the zero time. A submission with the date written 01/03/2024 and a valid phone: the
  lookup is made, the booking rendered carries the zero time, and the message is the one
  for a booking before now; there is no message of its own for malformed input.
\<close>

theorem unparsed_submission_not_distinct:
  "ParseInLocation example_env ''2006-01-02 15:04'' ''01/03/2024 14:00''
      (Zone ''Europe/Amsterdam'') = Inl ''parsing time: cannot parse''
   \<and> fst (bbScheduler example_env world0
        (example_post ''+31612345678'' ''01/03/2024'' ''14:00'')) = None
   \<and> response (snd (bbScheduler example_env world0
        (example_post ''+31612345678'' ''01/03/2024'' ''14:00''))) =
       [Page ''views/booking.gohtml''
          \<lparr>Booking =
             \<lparr>Name = ''Ada'', Treatment = ''Manicure'', Phone = ''+31612345678'',
              BookingTime = Some zero_time, MinDate = ''2024-03-01''\<rparr>,
           Message = ''Cannot make a booking before now. Please try again!''\<rparr>]
   \<and> lookups (snd (bbScheduler example_env world0
        (example_post ''+31612345678'' ''01/03/2024'' ''14:00''))) = [(''+31612345678'', ''NL'')]
   \<and> logged (snd (bbScheduler example_env world0
        (example_post ''+31612345678'' ''01/03/2024'' ''14:00''))) = [''parsing time: cannot parse'']"
  unfolding example_unparsed_run Render_ok [OF templates_ok_example]
  by (simp add: example_simps FormValue_def submitted_time_def submitted_booking_def
      world_at_check_def log_Println_def)

text \<open>
  C5, amended. When the date and time do not parse, the handler logs the parse error and
  continues with the zero time: the phone lookup is still made and, the templates
  working, the page written is the booking form carrying the zero time as booking time.
  Its message is that of one of the later checks and of nothing else: the request for a
  valid phone number when the lookup fails, otherwise the sentence \<open>checkTime\<close> returns for
  the zero time or, should that be the success sentence, the outcome of the SMS call.
\<close>

theorem unparsed_submission_continues:
  assumes "LoadLocation e ''Europe/Amsterdam'' = Inr loc"
    and "Method r = ''POST''"
    and "ParseInLocation e ''2006-01-02 15:04''
           (FormValue r ''date'' @ '' '' @ FormValue r ''time'') loc = Inl err"
  shows "prefix (logged s @ [err]) (logged (snd (bbScheduler e s r)))
     \<and> lookups (snd (bbScheduler e s r)) = lookups s @ [(FormValue r ''phone'', ''NL'')]
     \<and> (\<exists>st. fst (checkTime e (world_at_check e s r loc) zero_time (3 * Hour) loc) = Inr st
           \<and> (templates_ok e \<longrightarrow>
                response (snd (bbScheduler e s r)) =
                  response s @
                  [Page ''views/booking.gohtml''
                     \<lparr>Booking =
                        \<lparr>Name = FormValue r ''name'',
                         Treatment = FormValue r ''treatment'',
                         Phone = FormValue r ''phone'',
                         BookingTime = Some zero_time,
                         MinDate = Format e \<lparr>inst = clock e (Suc (ticks s)), zone = loc\<rparr>
                                     ''2006-01-02''\<rparr>,
                      Message =
                        (case lookup_Read e (FormValue r ''phone'') ''NL'' of
                           Some x \<Rightarrow> ''Please enter a valid phone number.''
                         | None \<Rightarrow>
                             if st = ''Success!'' then
                               (case sms_Create e (reminder_request e r loc) of
                                  Inl x \<Rightarrow>
                                    x @ [CHR 0x0A] @ ''. Please check your details and try again!''
                                | Inr m \<Rightarrow> success_status e r loc)
                             else st)\<rparr>]))"
proof -
  let ?w = "world_at_check e s r loc"
  let ?res = "checkTime e ?w zero_time (3 * Hour) loc"
  let ?w' = "?w\<lparr>ticks := Suc (ticks ?w)\<rparr>"
  have zero: "submitted_time e r loc = zero_time"
    using assms(3) by (simp add: submitted_time_def)
  have logged_w: "logged ?w = logged s @ [err]"
    using assms(3) by (rule world_at_check_logged)
  have booking: "submitted_booking e s r loc =
      \<lparr>Name = FormValue r ''name'', Treatment = FormValue r ''treatment'',
       Phone = FormValue r ''phone'', BookingTime = Some zero_time,
       MinDate = Format e \<lparr>inst = clock e (Suc (ticks s)), zone = loc\<rparr> ''2006-01-02''\<rparr>"
    using assms(3) by (simp add: submitted_booking_def submitted_time_def)
  obtain st where st: "fst ?res = Inr st" "st \<noteq> []"
    using checkTime_returns by blast
  show ?thesis
  proof (cases "lookup_Read e (FormValue r ''phone'') ''NL''")
    case (Some x)
    then have run: "bbScheduler e s r =
        RenderDefaultTemplate e ?w ''views/booking.gohtml''
          \<lparr>Booking = submitted_booking e s r loc,
           Message = ''Please enter a valid phone number.''\<rparr>"
      using assms(1,2) by (simp add: bbScheduler_POST)
    have "prefix (logged s @ [err]) (logged (snd (bbScheduler e s r)))"
      unfolding run using Render_logged [of ?w] by (simp add: logged_w)
    moreover have "lookups (snd (bbScheduler e s r))
        = lookups s @ [(FormValue r ''phone'', ''NL'')]"
      unfolding run by (simp add: Render_lookups world_at_check_simps)
    ultimately show ?thesis
      using run booking Some st(1) by (simp add: Render_ok world_at_check_simps)
  next
    case None
    have run: "bbScheduler e s r = after_check e s r loc (Inr st, ?w')"
      using assms(1,2) None st(1) checkTime_pair [of e ?w zero_time "3 * Hour" loc]
      by (simp add: bbScheduler_POST zero)
    have "prefix (logged s @ [err]) (logged (snd (bbScheduler e s r)))"
      unfolding run using after_check_logged [of ?w' e s r loc "Inr st"] by (simp add: logged_w)
    moreover have "lookups (snd (bbScheduler e s r))
        = lookups s @ [(FormValue r ''phone'', ''NL'')]"
      unfolding run by (simp add: after_check_lookups world_at_check_simps)
    moreover have "response (snd (bbScheduler e s r)) =
        response s @
        [Page ''views/booking.gohtml''
           \<lparr>Booking = submitted_booking e s r loc,
            Message =
              (if st = ''Success!'' then
                 (case sms_Create e (reminder_request e r loc) of
                    Inl x \<Rightarrow> x @ [CHR 0x0A] @ ''. Please check your details and try again!''
                  | Inr m \<Rightarrow> success_status e r loc)
               else st)\<rparr>]"
      if "templates_ok e"
      unfolding run using after_check_message [OF that st(2), of s r loc ?w']
      by (simp add: world_at_check_simps)
    ultimately show ?thesis
      using booking None st(1) by simp
  qed
qed

theorem unparsed_submission_continues_witness:
  "LoadLocation example_env ''Europe/Amsterdam'' = Inr (Zone ''Europe/Amsterdam'')
   \<and> Method (example_post ''+31612345678'' ''01/03/2024'' ''14:00'') = ''POST''
   \<and> ParseInLocation example_env ''2006-01-02 15:04''
        (FormValue (example_post ''+31612345678'' ''01/03/2024'' ''14:00'') ''date'' @ '' ''
         @ FormValue (example_post ''+31612345678'' ''01/03/2024'' ''14:00'') ''time'')
        (Zone ''Europe/Amsterdam'') = Inl ''parsing time: cannot parse''
   \<and> templates_ok example_env
   \<and> prefix [''parsing time: cannot parse'']
        (logged (snd (bbScheduler example_env world0
           (example_post ''+31612345678'' ''01/03/2024'' ''14:00''))))
   \<and> lookups (snd (bbScheduler example_env world0
        (example_post ''+31612345678'' ''01/03/2024'' ''14:00''))) = [(''+31612345678'', ''NL'')]
   \<and> response (snd (bbScheduler example_env world0
         (example_post ''+31612345678'' ''01/03/2024'' ''14:00''))) =
       [Page ''views/booking.gohtml''
          \<lparr>Booking =
             \<lparr>Name = ''Ada'', Treatment = ''Manicure'', Phone = ''+31612345678'',
              BookingTime = Some zero_time, MinDate = ''2024-03-01''\<rparr>,
           Message = ''Cannot make a booking before now. Please try again!''\<rparr>]"
proof -
  let ?r = "example_post ''+31612345678'' ''01/03/2024'' ''14:00''"
  let ?loc = "Zone ''Europe/Amsterdam''"
  have zone: "LoadLocation example_env ''Europe/Amsterdam'' = Inr ?loc"
    by (simp add: example_env_def)
  have post: "Method ?r = ''POST''"
    by (simp add: example_post_def)
  have parse: "ParseInLocation example_env ''2006-01-02 15:04''
      (FormValue ?r ''date'' @ '' '' @ FormValue ?r ''time'') ?loc
      = Inl ''parsing time: cannot parse''"
    by (simp add: example_simps FormValue_def)
  have phone: "lookup_Read example_env (FormValue ?r ''phone'') ''NL'' = None"
    by (simp add: example_env_def example_lookup_def example_post_def FormValue_def)
  have status: "fst (checkTime example_env (world_at_check example_env world0 ?r ?loc)
      zero_time (3 * Hour) ?loc) = Inr ''Cannot make a booking before now. Please try again!''"
    by (simp add: checkTime_status world_at_check_simps example_env_def example_clock_def
        world0_def zero_time_def)
  show ?thesis
    using unparsed_submission_continues [OF zone post parse, of world0]
      zone post parse templates_ok_example
    unfolding status phone
    by (simp add: example_simps FormValue_def)
qed

text \<open>
  C10. As stated the claim fails: a submission whose date does not parse and whose phone
  the lookup rejects is shown the request for a valid phone number, and \<open>checkTime\<close> is
  not called for it (the clock has been read twice, not three times).
\<close>

theorem unparsed_submission_invalid_phone:
  "ParseInLocation example_env ''2006-01-02 15:04'' ''01/03/2024 14:00''
      (Zone ''Europe/Amsterdam'') = Inl ''parsing time: cannot parse''
   \<and> lookup_Read example_env ''0612'' ''NL'' = Some ''API errors: no (correct) phone number found''
   \<and> response (snd (bbScheduler example_env world0
        (example_post ''0612'' ''01/03/2024'' ''14:00''))) =
       [Page ''views/booking.gohtml''
          \<lparr>Booking =
             \<lparr>Name = ''Ada'', Treatment = ''Manicure'', Phone = ''0612'',
              BookingTime = Some zero_time, MinDate = ''2024-03-01''\<rparr>,
           Message = ''Please enter a valid phone number.''\<rparr>]
   \<and> ticks (snd (bbScheduler example_env world0
        (example_post ''0612'' ''01/03/2024'' ''14:00''))) = Suc (Suc 0)"
proof -
  let ?r = "example_post ''0612'' ''01/03/2024'' ''14:00''"
  let ?loc = "Zone ''Europe/Amsterdam''"
  have zone: "LoadLocation example_env ''Europe/Amsterdam'' = Inr ?loc"
    by (simp add: example_env_def)
  have post: "Method ?r = ''POST''"
    by (simp add: example_post_def)
  have phone: "lookup_Read example_env (FormValue ?r ''phone'') ''NL''
      = Some ''API errors: no (correct) phone number found''"
    by (simp add: example_env_def example_lookup_def example_post_def FormValue_def)
  have run: "bbScheduler example_env world0 ?r =
      RenderDefaultTemplate example_env (world_at_check example_env world0 ?r ?loc)
        ''views/booking.gohtml''
        \<lparr>Booking = submitted_booking example_env world0 ?r ?loc,
         Message = ''Please enter a valid phone number.''\<rparr>"
    unfolding bbScheduler_POST [OF zone post] phone by simp
  show ?thesis
    unfolding run Render_ok [OF templates_ok_example]
    by (simp add: example_simps FormValue_def submitted_time_def submitted_booking_def
        world_at_check_def log_Println_def)
qed

text \<open>
  C10, amended. When the date and time of a POST do not parse, the booking time is the
  zero time. A clock that reads a time after January 1 of year 1 makes \<open>checkTime\<close>
  reject it as before now, and the SMS service is never called for such a submission. The
  page written carries the before-now sentence when the phone passed the lookup, and the
  request for a valid phone number when it did not: no message is specific to malformed
  input.
\<close>

theorem unparsed_submission_rejected_before_now:
  assumes "LoadLocation e ''Europe/Amsterdam'' = Inr loc"
    and "Method r = ''POST''"
    and "ParseInLocation e ''2006-01-02 15:04''
           (FormValue r ''date'' @ '' '' @ FormValue r ''time'') loc = Inl err"
    and "inst zero_time < clock e (Suc (Suc (ticks s)))"
  shows "submitted_time e r loc = zero_time
     \<and> outcome (fst (checkTime e (world_at_check e s r loc) (submitted_time e r loc)
                     (3 * Hour) loc)) = Some BeforeNow
     \<and> sent (snd (bbScheduler e s r)) = sent s
     \<and> (templates_ok e \<longrightarrow>
          response (snd (bbScheduler e s r)) =
            response s @
            [Page ''views/booking.gohtml''
               \<lparr>Booking = submitted_booking e s r loc,
                Message =
                  (case lookup_Read e (FormValue r ''phone'') ''NL'' of
                     Some x \<Rightarrow> ''Please enter a valid phone number.''
                   | None \<Rightarrow> ''Cannot make a booking before now. Please try again!'')\<rparr>])"
proof -
  let ?w = "world_at_check e s r loc"
  let ?res = "checkTime e ?w (submitted_time e r loc) (3 * Hour) loc"
  let ?w' = "?w\<lparr>ticks := Suc (ticks ?w)\<rparr>"
  have zero: "submitted_time e r loc = zero_time"
    using assms(3) by (simp add: submitted_time_def)
  have status: "fst ?res = Inr ''Cannot make a booking before now. Please try again!''"
    using assms(4) by (simp add: checkTime_status zero world_at_check_simps)
  then have before: "outcome (fst ?res) = Some BeforeNow"
    by (simp add: outcome_def outcome_of_status_def)
  show ?thesis
  proof (cases "lookup_Read e (FormValue r ''phone'') ''NL''")
    case (Some x)
    then have "bbScheduler e s r =
        RenderDefaultTemplate e ?w ''views/booking.gohtml''
          \<lparr>Booking = submitted_booking e s r loc,
           Message = ''Please enter a valid phone number.''\<rparr>"
      using assms(1,2) by (simp add: bbScheduler_POST)
    then show ?thesis
      using zero before Some by (simp add: Render_sent Render_ok world_at_check_simps)
  next
    case None
    have "bbScheduler e s r =
        after_check e s r loc
          (Inr ''Cannot make a booking before now. Please try again!'', ?w')"
      using assms(1,2) None status
        checkTime_pair [of e ?w "submitted_time e r loc" "3 * Hour" loc]
      by (simp add: bbScheduler_POST)
    then have "bbScheduler e s r =
        RenderDefaultTemplate e ?w' ''views/booking.gohtml''
          \<lparr>Booking = submitted_booking e s r loc,
           Message = ''Cannot make a booking before now. Please try again!''\<rparr>"
      by (simp add: after_check_rejected)
    then show ?thesis
      using zero before None by (simp add: Render_sent Render_ok world_at_check_simps)
  qed
qed

text \<open>The submission with the date written 01/03/2024, once with a phone that passes the
  lookup and once with one that does not.\<close>

theorem unparsed_submission_rejected_before_now_witness:
  "LoadLocation example_env ''Europe/Amsterdam'' = Inr (Zone ''Europe/Amsterdam'')
   \<and> Method (example_post ''+31612345678'' ''01/03/2024'' ''14:00'') = ''POST''
   \<and> ParseInLocation example_env ''2006-01-02 15:04''
        (FormValue (example_post ''+31612345678'' ''01/03/2024'' ''14:00'') ''date'' @ '' ''
         @ FormValue (example_post ''+31612345678'' ''01/03/2024'' ''14:00'') ''time'')
        (Zone ''Europe/Amsterdam'') = Inl ''parsing time: cannot parse''
   \<and> inst zero_time < clock example_env (Suc (Suc (ticks world0)))
   \<and> templates_ok example_env
   \<and> sent (snd (bbScheduler example_env world0
        (example_post ''+31612345678'' ''01/03/2024'' ''14:00''))) = []
   \<and> response (snd (bbScheduler example_env world0
        (example_post ''+31612345678'' ''01/03/2024'' ''14:00''))) =
       [Page ''views/booking.gohtml''
          \<lparr>Booking =
             \<lparr>Name = ''Ada'', Treatment = ''Manicure'', Phone = ''+31612345678'',
              BookingTime = Some zero_time, MinDate = ''2024-03-01''\<rparr>,
           Message = ''Cannot make a booking before now. Please try again!''\<rparr>]
   \<and> sent (snd (bbScheduler example_env world0
        (example_post ''0612'' ''01/03/2024'' ''14:00''))) = []
   \<and> response (snd (bbScheduler example_env world0
        (example_post ''0612'' ''01/03/2024'' ''14:00''))) =
       [Page ''views/booking.gohtml''
          \<lparr>Booking =
             \<lparr>Name = ''Ada'', Treatment = ''Manicure'', Phone = ''0612'',
              BookingTime = Some zero_time, MinDate = ''2024-03-01''\<rparr>,
           Message = ''Please enter a valid phone number.''\<rparr>]"
  using
    unparsed_submission_rejected_before_now [of example_env "Zone ''Europe/Amsterdam''"
      "example_post ''+31612345678'' ''01/03/2024'' ''14:00''"
      "''parsing time: cannot parse''" world0]
    unparsed_submission_rejected_before_now [of example_env "Zone ''Europe/Amsterdam''"
      "example_post ''0612'' ''01/03/2024'' ''14:00''"
      "''parsing time: cannot parse''" world0]
    templates_ok_example
  by (simp add: example_simps FormValue_def submitted_booking_def submitted_time_def zero_time_def)

end
